theory Spec2Isabelle
  imports Main
begin

section \<open>The RN-42 command-mode engine (rn42.py)\<close>

text \<open>
  A shallow embedding of class \<open>RN42\<close>. Python text is a \<open>string\<close> whose characters
  stand for the code points below 256; an exception is a value of type \<open>exn\<close>; every
  method takes the object and returns its outcome together with the object after the call,
  so that the state after a failed call can be inspected too.
\<close>

subsection \<open>Python text primitives used by the module\<close>

definition isspace :: "char \<Rightarrow> bool" where
  \<comment> \<open>the characters \<open>str.strip()\<close> removes: TAB, LF, VT, FF, CR, FS, GS, RS, US, space,
      NEL and the no-break space\<close>
  "isspace c = (c \<in> set [CHR 0x09, CHR 0x0A, CHR 0x0B, CHR 0x0C, CHR 0x0D,
                           CHR 0x1C, CHR 0x1D, CHR 0x1E, CHR 0x1F, CHR 0x20,
                           CHR 0x85, CHR 0xA0])"

definition strip :: "string \<Rightarrow> string" where
  \<comment> \<open>\<open>s.strip()\<close>: whitespace removed at both ends\<close>
  "strip s = rev (dropWhile isspace (rev (dropWhile isspace s)))"

definition startswith :: "string \<Rightarrow> string \<Rightarrow> bool" where
  \<comment> \<open>\<open>s.startswith(p)\<close>\<close>
  "startswith s p = (take (length p) s = p)"

fun str_in :: "string \<Rightarrow> string \<Rightarrow> bool" where
  \<comment> \<open>\<open>sub in s\<close> on text: \<open>sub\<close> occurs somewhere in \<open>s\<close>\<close>
  "str_in sub [] = (sub = [])"
| "str_in sub (c # cs) = (startswith (c # cs) sub \<or> str_in sub cs)"

definition split_first :: "char \<Rightarrow> string \<Rightarrow> string" where
  \<comment> \<open>\<open>s.split(sep)[0]\<close> for a one-character separator: the text before the first
      separator, the whole text when there is none\<close>
  "split_first sep s = takeWhile (\<lambda>c. c \<noteq> sep) s"

subsection \<open>Exceptions\<close>

datatype exn =
    RN42Exception string      \<comment> \<open>\<open>class RN42Exception(Exception)\<close>, with its message\<close>
  | SerialTimeoutException    \<comment> \<open>\<open>serial.SerialTimeoutException\<close>\<close>
  | OtherException string     \<comment> \<open>any other subclass of \<open>Exception\<close>, by class name\<close>
  | NonException string       \<comment> \<open>a \<open>BaseException\<close> outside \<open>Exception\<close>
                                  (\<open>KeyboardInterrupt\<close>, \<open>SystemExit\<close>), by class name\<close>

fun isinstance_Exception :: "exn \<Rightarrow> bool" where
  \<comment> \<open>what an \<open>except Exception:\<close> clause catches\<close>
  "isinstance_Exception (NonException _) = False"
| "isinstance_Exception _ = True"

subsection \<open>The transport (serial_utils.SerialDevice), an external collaborator\<close>

text \<open>
  The outcome of \<open>SendReceive(data, size=0, retry=RETRY).decode()\<close>: the decoded text, or
  the exception either call raised. The retry loop lives inside the transport.
\<close>

datatype reply = Text string | Raise exn

text \<open>
  The transport is a parameter of the model: \<open>answer\<close> gives the outcome of an exchange
  from everything handed to \<open>SendReceive\<close> so far (the current data last). \<open>sent\<close> logs
  that data in order, \<open>disconnects\<close> counts the calls of \<open>Disconnect\<close>.
\<close>

record serial_device =
  answer :: "string list \<Rightarrow> reply"
  sent :: "string list"
  disconnects :: nat

definition SendReceive :: "string \<Rightarrow> serial_device \<Rightarrow> reply \<times> serial_device" where
  "SendReceive data d = (answer d (sent d @ [data]), d\<lparr>sent := sent d @ [data]\<rparr>)"

text \<open>
  Modelled from the spec: \<open>serial_utils.SerialDevice.Disconnect\<close> is not part of the
  module; section 6 gives \<open>disconnect() -> ()\<close>, assumed to always succeed.
\<close>

definition Disconnect :: "serial_device \<Rightarrow> serial_device" where
  "Disconnect d = d\<lparr>disconnects := Suc (disconnects d)\<rparr>"

subsection \<open>Class constants\<close>

definition CHIP_NAME :: string where "CHIP_NAME = ''RNBT''"
definition NEWLINE :: string where "NEWLINE = [CHR 0x0D, CHR 0x0A]"
definition AOK :: string where "AOK = ''AOK''"

definition CMD_ENTER_COMMAND_MODE :: string where "CMD_ENTER_COMMAND_MODE = ''$$$''"
definition CMD_LEAVE_COMMAND_MODE :: string where "CMD_LEAVE_COMMAND_MODE = ''---''"
definition CMD_REBOOT :: string where "CMD_REBOOT = ''R,1''"
definition CMD_GET_CHIP_NAME :: string where "CMD_GET_CHIP_NAME = ''GN''"
definition CMD_GET_FIRMWARE_VERSION :: string where "CMD_GET_FIRMWARE_VERSION = ''V''"
definition CMD_GET_OPERATION_MODE :: string where "CMD_GET_OPERATION_MODE = ''GM''"
definition CMD_SET_MASTER_MODE :: string where "CMD_SET_MASTER_MODE = ''SM,1''"
definition CMD_SET_SLAVE_MODE :: string where "CMD_SET_SLAVE_MODE = ''SM,0''"
definition CMD_GET_AUTHENTICATION_MODE :: string where "CMD_GET_AUTHENTICATION_MODE = ''GA''"
definition CMD_SET_AUTHENTICATION_OPEN_MODE :: string where
  "CMD_SET_AUTHENTICATION_OPEN_MODE = ''SA,0''"
definition CMD_SET_AUTHENTICATION_PIN_MODE :: string where
  "CMD_SET_AUTHENTICATION_PIN_MODE = ''SA,4''"
definition PROFILE_SPP :: string where "PROFILE_SPP = ''0''"
definition PROFILE_HID :: string where "PROFILE_HID = ''6''"
definition CMD_GET_SERVICE_PROFILE :: string where "CMD_GET_SERVICE_PROFILE = ''G~''"
definition CMD_SET_SERVICE_PROFILE_SPP :: string where
  "CMD_SET_SERVICE_PROFILE_SPP = ''S~,'' @ PROFILE_SPP"
definition CMD_SET_SERVICE_PROFILE_HID :: string where
  "CMD_SET_SERVICE_PROFILE_HID = ''S~,'' @ PROFILE_HID"
definition CMD_GET_RN42_BLUETOOTH_MAC :: string where "CMD_GET_RN42_BLUETOOTH_MAC = ''GB''"
definition CMD_GET_CONNECTION_STATUS :: string where "CMD_GET_CONNECTION_STATUS = ''GK''"
definition CMD_GET_REMOTE_CONNECTED_BLUETOOTH_MAC :: string where
  "CMD_GET_REMOTE_CONNECTED_BLUETOOTH_MAC = ''GF''"
definition CMD_GET_HID :: string where "CMD_GET_HID = ''GH''"
definition CMD_SET_HID_KEYBOARD :: string where "CMD_SET_HID_KEYBOARD = ''SH,0000''"
definition CMD_SET_HID_GAMEPAD :: string where "CMD_SET_HID_GAMEPAD = ''SH,0010''"
definition CMD_SET_HID_MOUSE :: string where "CMD_SET_HID_MOUSE = ''SH,0020''"
definition CMD_SET_HID_COMBO :: string where "CMD_SET_HID_COMBO = ''SH,0030''"
definition CMD_SET_HID_JOYSTICK :: string where "CMD_SET_HID_JOYSTICK = ''SH,0040''"

text \<open>
  The decoding dictionaries, in the order of the source. \<open>D.get(k)\<close> is \<open>map_of D k\<close>:
  \<open>None\<close> for a missing key.
\<close>

definition OPERATION_MODE :: "(string \<times> string) list" where
  "OPERATION_MODE =
     [(''Slav'', ''SLAVE''), (''Mstr'', ''MASTER''), (''Trig'', ''TRIGGER''),
      (''Auto'', ''AUTO''), (''DTR'', ''DTR''), (''Any'', ''ANY''), (''Pair'', ''PAIR'')]"

definition AUTHENTICATION_MODE :: "(string \<times> string) list" where
  "AUTHENTICATION_MODE =
     [(''0'', ''OPEN''), (''1'', ''SSP_KEYBOARD''), (''2'', ''SSP_JUST_WORK''),
      (''4'', ''PIN_CODE'')]"

definition SERVICE_PROFILE :: "(string \<times> string) list" where
  "SERVICE_PROFILE =
     [(''0'', ''SPP''), (''1'', ''DUN_DCE''), (''2'', ''DUN_DTE''), (''3'', ''MDM_SPP''),
      (''4'', ''SPP_AND_DUN_DCE''), (''5'', ''APL''), (''6'', ''HID'')]"

definition HID_DEVICE_TYPE :: "(string \<times> string) list" where
  "HID_DEVICE_TYPE =
     [(''0200'', ''KEYBOARD''), (''0210'', ''GAMEPAD''), (''0220'', ''MOUSE''),
      (''0230'', ''COMBO''), (''0240'', ''JOYSTICK''), (''0250'', ''DIGITIZER''),
      (''0260'', ''SENSOR''), (''0270'', ''USECFG'')]"

definition dict_get :: "(string \<times> string) list \<Rightarrow> string \<Rightarrow> string option" where
  "dict_get D k = map_of D k"

subsection \<open>The object\<close>

record rn42 =
  command_mode :: bool      \<comment> \<open>\<open>self._command_mode\<close>\<close>
  closed :: bool            \<comment> \<open>\<open>self._closed\<close>\<close>
  serial :: serial_device   \<comment> \<open>\<open>self._serial\<close>\<close>

subsection \<open>serial_send_and_receive\<close>

text \<open>
  The body of the \<open>try\<close> block, once the transport has answered: the text is stripped and
  checked against \<open>expect\<close> and \<open>expect_in\<close> (an empty expectation is falsy and checks
  nothing); a mismatch raises an \<open>RN42Exception\<close> whose message holds \<open>msg\<close> and the result.
\<close>

definition check_response :: "string \<Rightarrow> string \<Rightarrow> string \<Rightarrow> reply \<Rightarrow> exn + string" where
  "check_response expect expect_in msg r =
     (case r of
        Raise e \<Rightarrow> Inl e
      | Text t \<Rightarrow>
          (let result = strip t in
           if (expect \<noteq> [] \<and> expect \<noteq> result) \<or> (expect_in \<noteq> [] \<and> \<not> str_in expect_in result)
           then Inl (RN42Exception (''Failulre in '' @ msg @ '': '' @ result))
           else Inr result))"

text \<open>
  The \<open>except Exception:\<close> clause encloses the whole block, the mismatch raised inside it
  included: whatever \<open>Exception\<close> arrives is replaced by \<open>RN42Exception('Failulre in %s' % msg)\<close>.
\<close>

definition serial_send_and_receive ::
  "string \<Rightarrow> string \<Rightarrow> string \<Rightarrow> string \<Rightarrow> rn42 \<Rightarrow> (exn + string) \<times> rn42" where
  "serial_send_and_receive command expect expect_in msg s =
     (case SendReceive (command @ NEWLINE) (serial s) of
        (r, d) \<Rightarrow>
          (case check_response expect expect_in msg r of
             Inl e \<Rightarrow>
               (if isinstance_Exception e
                then (Inl (RN42Exception (''Failulre in '' @ msg)), s\<lparr>serial := d\<rparr>)
                else (Inl e, s\<lparr>serial := d\<rparr>))
           | Inr result \<Rightarrow> (Inr result, s\<lparr>serial := d\<rparr>)))"

subsection \<open>Identity query and the command-mode state machine\<close>

definition get_chip_name :: "rn42 \<Rightarrow> (exn + string) \<times> rn42" where
  "get_chip_name s = serial_send_and_receive CMD_GET_CHIP_NAME [] [] ''getting chip name'' s"

text \<open>
  The \<open>except Exception:\<close> clause around the chip-name probe of \<open>enter_command_mode\<close>. It
  encloses the probe, the prefix test and the \<open>raise\<close> of the else branch alike.
\<close>

definition probe_handler :: "exn \<Rightarrow> rn42 \<Rightarrow> (exn + bool) \<times> rn42" where
  "probe_handler e s =
     (if isinstance_Exception e
      then (Inl (RN42Exception ''Failure to get chip name in entering command mode.''), s)
      else (Inl e, s))"

definition enter_command_mode :: "rn42 \<Rightarrow> (exn + bool) \<times> rn42" where
  "enter_command_mode s =
     (case SendReceive CMD_ENTER_COMMAND_MODE (serial s) of
        (Raise e, d) \<Rightarrow>
          (if e = SerialTimeoutException
           then (Inl (RN42Exception ''Failure in entering command mode.''), s\<lparr>serial := d\<rparr>)
           else (Inl e, s\<lparr>serial := d\<rparr>))
      | (Text t, d) \<Rightarrow>
          (let result = strip t in
           if str_in ''CMD'' result
           then (Inr True, s\<lparr>serial := d, command_mode := True\<rparr>)
           else if result = []
           then (case get_chip_name (s\<lparr>serial := d\<rparr>) of
                   (Inl e, s') \<Rightarrow> probe_handler e s'
                 | (Inr chip_name, s') \<Rightarrow>
                     if startswith chip_name CHIP_NAME
                     then (Inr True, s'\<lparr>command_mode := True\<rparr>)
                     else probe_handler
                            (RN42Exception
                               (''Incorrect chip name when entering command mode: '' @ chip_name))
                            s')
           else (Inl (RN42Exception
                        (''Incorrect response in entering command mode: '' @ result)),
                 s\<lparr>serial := d\<rparr>)))"

definition leave_command_mode :: "rn42 \<Rightarrow> (exn + bool) \<times> rn42" where
  "leave_command_mode s =
     (if command_mode s
      then (case serial_send_and_receive CMD_LEAVE_COMMAND_MODE ''END'' []
                   ''leaving command mode'' s of
              (Inl e, s') \<Rightarrow> (Inl e, s')
            | (Inr _, s') \<Rightarrow> (Inr True, s'\<lparr>command_mode := False\<rparr>))
      else (Inr True, s))"

definition close :: "rn42 \<Rightarrow> (exn + unit) \<times> rn42" where
  "close s =
     (if \<not> closed s
      then (case leave_command_mode s of
              (Inl e, s') \<Rightarrow> (Inl e, s')
            | (Inr _, s') \<Rightarrow> (Inr (), s'\<lparr>serial := Disconnect (serial s'), closed := True\<rparr>))
      else (Inr (), s))"

subsection \<open>The remaining operations\<close>

text \<open>A setter: one transaction with an exact expectation, then \<open>return True\<close>.\<close>

definition expect_exact :: "string \<Rightarrow> string \<Rightarrow> string \<Rightarrow> rn42 \<Rightarrow> (exn + bool) \<times> rn42" where
  "expect_exact command expect msg s =
     (case serial_send_and_receive command expect [] msg s of
        (Inl e, s') \<Rightarrow> (Inl e, s')
      | (Inr _, s') \<Rightarrow> (Inr True, s'))"

text \<open>A decoding getter: one transaction with no expectation, then \<open>TABLE.get(result)\<close>.\<close>

definition decode_with ::
  "(string \<times> string) list \<Rightarrow> string \<Rightarrow> string \<Rightarrow> rn42 \<Rightarrow> (exn + string option) \<times> rn42" where
  "decode_with D command msg s =
     (case serial_send_and_receive command [] [] msg s of
        (Inl e, s') \<Rightarrow> (Inl e, s')
      | (Inr result, s') \<Rightarrow> (Inr (dict_get D result), s'))"

definition reboot :: "rn42 \<Rightarrow> (exn + bool) \<times> rn42" where
  "reboot = expect_exact CMD_REBOOT ''Reboot'' ''rebooting RN-42''"

definition get_firmware_version :: "rn42 \<Rightarrow> (exn + string) \<times> rn42" where
  "get_firmware_version =
     serial_send_and_receive CMD_GET_FIRMWARE_VERSION [] ''Ver'' ''getting firmware version''"

definition get_operation_mode :: "rn42 \<Rightarrow> (exn + string option) \<times> rn42" where
  "get_operation_mode =
     decode_with OPERATION_MODE CMD_GET_OPERATION_MODE ''getting operation mode''"

definition set_master_mode :: "rn42 \<Rightarrow> (exn + bool) \<times> rn42" where
  "set_master_mode = expect_exact CMD_SET_MASTER_MODE AOK ''setting master mode''"

definition set_slave_mode :: "rn42 \<Rightarrow> (exn + bool) \<times> rn42" where
  "set_slave_mode = expect_exact CMD_SET_SLAVE_MODE AOK ''setting slave mode''"

definition get_authentication_mode :: "rn42 \<Rightarrow> (exn + string option) \<times> rn42" where
  "get_authentication_mode =
     decode_with AUTHENTICATION_MODE CMD_GET_AUTHENTICATION_MODE
       ''getting authentication mode''"

definition set_authentication_open_mode :: "rn42 \<Rightarrow> (exn + bool) \<times> rn42" where
  "set_authentication_open_mode =
     expect_exact CMD_SET_AUTHENTICATION_OPEN_MODE AOK ''setting authentication open mode''"

definition set_authentication_pin_mode :: "rn42 \<Rightarrow> (exn + bool) \<times> rn42" where
  "set_authentication_pin_mode =
     expect_exact CMD_SET_AUTHENTICATION_PIN_MODE AOK ''setting authentication pin mode''"

definition get_service_profile :: "rn42 \<Rightarrow> (exn + string option) \<times> rn42" where
  "get_service_profile =
     decode_with SERVICE_PROFILE CMD_GET_SERVICE_PROFILE ''getting service profile''"

definition set_service_profile_SPP :: "rn42 \<Rightarrow> (exn + bool) \<times> rn42" where
  "set_service_profile_SPP =
     expect_exact CMD_SET_SERVICE_PROFILE_SPP AOK ''setting SPP as service profile''"

definition set_service_profile_HID :: "rn42 \<Rightarrow> (exn + bool) \<times> rn42" where
  "set_service_profile_HID =
     expect_exact CMD_SET_SERVICE_PROFILE_HID AOK ''setting HID as service profile''"

definition get_local_bluetooth_address :: "rn42 \<Rightarrow> (exn + string) \<times> rn42" where
  "get_local_bluetooth_address =
     serial_send_and_receive CMD_GET_RN42_BLUETOOTH_MAC [] []
       ''getting local bluetooth address''"

definition get_connection_status :: "rn42 \<Rightarrow> (exn + bool) \<times> rn42" where
  "get_connection_status s =
     (case serial_send_and_receive CMD_GET_CONNECTION_STATUS [] []
             ''getting connection status'' s of
        (Inl e, s') \<Rightarrow> (Inl e, s')
      | (Inr result, s') \<Rightarrow> (Inr (split_first (CHR '','') result = ''1''), s'))"

definition get_remote_connected_bluetooth_address ::
  "rn42 \<Rightarrow> (exn + string option) \<times> rn42" where
  "get_remote_connected_bluetooth_address s =
     (case serial_send_and_receive CMD_GET_REMOTE_CONNECTED_BLUETOOTH_MAC [] []
             ''getting local bluetooth address'' s of
        (Inl e, s') \<Rightarrow> (Inl e, s')
      | (Inr result, s') \<Rightarrow>
          (Inr (if result = ''000000000000'' then None else Some result), s'))"

definition get_HID_deviceType :: "rn42 \<Rightarrow> (exn + string option) \<times> rn42" where
  "get_HID_deviceType = decode_with HID_DEVICE_TYPE CMD_GET_HID ''getting HID device type''"

definition set_HID_keyboard :: "rn42 \<Rightarrow> (exn + bool) \<times> rn42" where
  "set_HID_keyboard = expect_exact CMD_SET_HID_KEYBOARD AOK ''setting keyboard as HID device''"

definition set_HID_gamepad :: "rn42 \<Rightarrow> (exn + bool) \<times> rn42" where
  "set_HID_gamepad = expect_exact CMD_SET_HID_GAMEPAD AOK ''setting gamepad as HID device''"

definition set_HID_mouse :: "rn42 \<Rightarrow> (exn + bool) \<times> rn42" where
  "set_HID_mouse = expect_exact CMD_SET_HID_MOUSE AOK ''setting mouse as HID device''"

definition set_HID_combo :: "rn42 \<Rightarrow> (exn + bool) \<times> rn42" where
  "set_HID_combo = expect_exact CMD_SET_HID_COMBO AOK ''setting combo as HID device''"

definition set_HID_joystick :: "rn42 \<Rightarrow> (exn + bool) \<times> rn42" where
  "set_HID_joystick = expect_exact CMD_SET_HID_JOYSTICK AOK ''setting joystick as HID device''"

subsection \<open>Any call of a public method\<close>

datatype pyval = PyNone | PyBool bool | PyStr string

datatype operation =
    Close
  | Serial_send_and_receive string string string string
  | Enter_command_mode | Leave_command_mode | Reboot
  | Get_chip_name | Get_firmware_version
  | Get_operation_mode | Set_master_mode | Set_slave_mode
  | Get_authentication_mode | Set_authentication_open_mode | Set_authentication_pin_mode
  | Get_service_profile | Set_service_profile_SPP | Set_service_profile_HID
  | Get_local_bluetooth_address | Get_connection_status
  | Get_remote_connected_bluetooth_address
  | Get_HID_deviceType
  | Set_HID_keyboard | Set_HID_gamepad | Set_HID_mouse | Set_HID_combo | Set_HID_joystick

definition returning :: "('a \<Rightarrow> pyval) \<Rightarrow> (exn + 'a) \<times> rn42 \<Rightarrow> (exn + pyval) \<times> rn42" where
  "returning f r = (case r of (Inl e, s) \<Rightarrow> (Inl e, s) | (Inr v, s) \<Rightarrow> (Inr (f v), s))"

definition PyOpt :: "string option \<Rightarrow> pyval" where
  "PyOpt v = (case v of None \<Rightarrow> PyNone | Some x \<Rightarrow> PyStr x)"

fun perform :: "operation \<Rightarrow> rn42 \<Rightarrow> (exn + pyval) \<times> rn42" where
  "perform Close s = returning (\<lambda>_. PyNone) (close s)"
| "perform (Serial_send_and_receive command expect expect_in msg) s =
     returning PyStr (serial_send_and_receive command expect expect_in msg s)"
| "perform Enter_command_mode s = returning PyBool (enter_command_mode s)"
| "perform Leave_command_mode s = returning PyBool (leave_command_mode s)"
| "perform Reboot s = returning PyBool (reboot s)"
| "perform Get_chip_name s = returning PyStr (get_chip_name s)"
| "perform Get_firmware_version s = returning PyStr (get_firmware_version s)"
| "perform Get_operation_mode s = returning PyOpt (get_operation_mode s)"
| "perform Set_master_mode s = returning PyBool (set_master_mode s)"
| "perform Set_slave_mode s = returning PyBool (set_slave_mode s)"
| "perform Get_authentication_mode s = returning PyOpt (get_authentication_mode s)"
| "perform Set_authentication_open_mode s = returning PyBool (set_authentication_open_mode s)"
| "perform Set_authentication_pin_mode s = returning PyBool (set_authentication_pin_mode s)"
| "perform Get_service_profile s = returning PyOpt (get_service_profile s)"
| "perform Set_service_profile_SPP s = returning PyBool (set_service_profile_SPP s)"
| "perform Set_service_profile_HID s = returning PyBool (set_service_profile_HID s)"
| "perform Get_local_bluetooth_address s = returning PyStr (get_local_bluetooth_address s)"
| "perform Get_connection_status s = returning PyBool (get_connection_status s)"
| "perform Get_remote_connected_bluetooth_address s =
     returning PyOpt (get_remote_connected_bluetooth_address s)"
| "perform Get_HID_deviceType s = returning PyOpt (get_HID_deviceType s)"
| "perform Set_HID_keyboard s = returning PyBool (set_HID_keyboard s)"
| "perform Set_HID_gamepad s = returning PyBool (set_HID_gamepad s)"
| "perform Set_HID_mouse s = returning PyBool (set_HID_mouse s)"
| "perform Set_HID_combo s = returning PyBool (set_HID_combo s)"
| "perform Set_HID_joystick s = returning PyBool (set_HID_joystick s)"

subsection \<open>Example transports and sessions\<close>

text \<open>
  A transport that answers its n-th exchange with the n-th entry of a script, and times
  out once the script is used up; and a freshly constructed object (both flags false, as
  \<open>__init__\<close> sets them) on such a transport.
\<close>

definition scripted :: "reply list \<Rightarrow> string list \<Rightarrow> reply" where
  "scripted rs log =
     (if 0 < length log \<and> length log \<le> length rs then rs ! (length log - 1)
      else Raise SerialTimeoutException)"

definition session :: "bool \<Rightarrow> reply list \<Rightarrow> rn42" where
  "session cm rs =
     \<lparr>command_mode = cm, closed = False,
      serial = \<lparr>answer = scripted rs, sent = [], disconnects = 0\<rparr>\<rparr>"

section \<open>Properties\<close>

subsection \<open>Text search and the transaction primitive\<close>

lemma startswith_append: "startswith (p @ r) p"
  by (simp add: startswith_def)

lemma startswith_str_in: "startswith s sub \<Longrightarrow> str_in sub s"
  by (cases s) (auto simp: startswith_def)

lemma str_in_suffix: "str_in sub (sub @ suf)"
  by (rule startswith_str_in) (rule startswith_append)

lemma str_in_append: "str_in sub (pre @ sub @ suf)"
proof (induction pre)
  case Nil
  show ?case using str_in_suffix by simp
next
  case (Cons c pre)
  then show ?case by simp
qed

lemma str_in_iff: "str_in sub s \<longleftrightarrow> (\<exists>pre suf. s = pre @ sub @ suf)"
proof
  show "str_in sub s \<Longrightarrow> \<exists>pre suf. s = pre @ sub @ suf"
  proof (induction s)
    case Nil
    then show ?case by simp
  next
    case (Cons c cs)
    show ?case
    proof (cases "startswith (c # cs) sub")
      case True
      then have "c # cs = [] @ sub @ drop (length sub) (c # cs)"
        unfolding startswith_def by (metis append_Nil append_take_drop_id)
      then show ?thesis by blast
    next
      case False
      with Cons.prems have "str_in sub cs" by simp
      then obtain pre suf where "cs = pre @ sub @ suf" using Cons.IH by blast
      then have "c # cs = (c # pre) @ sub @ suf" by simp
      then show ?thesis by blast
    qed
  qed
next
  show "\<exists>pre suf. s = pre @ sub @ suf \<Longrightarrow> str_in sub s"
    using str_in_append by blast
qed

lemma ssr_state:
  "snd (serial_send_and_receive command expect expect_in msg s) =
     s\<lparr>serial := (serial s)\<lparr>sent := sent (serial s) @ [command @ NEWLINE]\<rparr>\<rparr>"
  by (simp add: serial_send_and_receive_def SendReceive_def split: sum.splits)

lemma ssr_text:
  assumes "answer (serial s) (sent (serial s) @ [command @ NEWLINE]) = Text t"
  shows "fst (serial_send_and_receive command expect expect_in msg s) =
     (if (expect \<noteq> [] \<and> expect \<noteq> strip t) \<or> (expect_in \<noteq> [] \<and> \<not> str_in expect_in (strip t))
      then Inl (RN42Exception (''Failulre in '' @ msg)) else Inr (strip t))"
  using assms
  by (simp add: serial_send_and_receive_def SendReceive_def check_response_def Let_def)

lemma ssr_raise:
  assumes "answer (serial s) (sent (serial s) @ [command @ NEWLINE]) = Raise e"
  shows "fst (serial_send_and_receive command expect expect_in msg s) =
     (if isinstance_Exception e then Inl (RN42Exception (''Failulre in '' @ msg)) else Inl e)"
  using assms
  by (simp add: serial_send_and_receive_def SendReceive_def check_response_def)

lemma ssr_flags:
  "command_mode (snd (serial_send_and_receive command expect expect_in msg s)) = command_mode s"
  "closed (snd (serial_send_and_receive command expect expect_in msg s)) = closed s"
  by (simp_all add: ssr_state)

lemma ssr_stateD:
  assumes "serial_send_and_receive command expect expect_in msg s = (r, s')"
  shows "s' = s\<lparr>serial := (serial s)\<lparr>sent := sent (serial s) @ [command @ NEWLINE]\<rparr>\<rparr>"
  using ssr_state[of command expect expect_in msg s] assms by simp

lemma ssr_flagsD:
  "serial_send_and_receive command expect expect_in msg s = (r, s') \<Longrightarrow>
     command_mode s' = command_mode s \<and> closed s' = closed s"
  by (auto dest!: ssr_stateD)

lemmas example_defs =
  session_def scripted_def SendReceive_def check_response_def serial_send_and_receive_def
  strip_def isspace_def NEWLINE_def startswith_def

subsection \<open>What a failed call leaves behind, method by method\<close>

lemma leave_command_mode_flags:
  "leave_command_mode s = (Inl e, s') \<Longrightarrow> command_mode s' = command_mode s \<and> closed s' = closed s"
  by (auto simp: leave_command_mode_def split: if_splits prod.splits sum.splits
      dest!: ssr_stateD)

lemma leave_command_mode_disconnects:
  "leave_command_mode s = (r, s') \<Longrightarrow> disconnects (serial s') = disconnects (serial s)"
  by (auto simp: leave_command_mode_def split: if_splits prod.splits sum.splits
      dest!: ssr_stateD)

lemma enter_command_mode_flags:
  "enter_command_mode s = (Inl e, s') \<Longrightarrow> command_mode s' = command_mode s \<and> closed s' = closed s"
  by (auto simp: enter_command_mode_def SendReceive_def get_chip_name_def probe_handler_def Let_def
           split: if_splits prod.splits sum.splits reply.splits dest!: ssr_stateD)

lemma close_flags:
  "close s = (Inl e, s') \<Longrightarrow> command_mode s' = command_mode s \<and> closed s' = closed s"
  by (auto simp: close_def split: if_splits prod.splits sum.splits dest!: leave_command_mode_flags)

lemma expect_exact_flags:
  "expect_exact command expect msg s = (Inl e, s') \<Longrightarrow>
     command_mode s' = command_mode s \<and> closed s' = closed s"
  by (auto simp: expect_exact_def split: prod.splits sum.splits dest!: ssr_stateD)

lemma decode_with_flags:
  "decode_with D command msg s = (Inl e, s') \<Longrightarrow>
     command_mode s' = command_mode s \<and> closed s' = closed s"
  by (auto simp: decode_with_def split: prod.splits sum.splits dest!: ssr_stateD)

lemma get_connection_status_flags:
  "get_connection_status s = (Inl e, s') \<Longrightarrow>
     command_mode s' = command_mode s \<and> closed s' = closed s"
  by (auto simp: get_connection_status_def split: prod.splits sum.splits dest!: ssr_stateD)

lemma get_remote_connected_bluetooth_address_flags:
  "get_remote_connected_bluetooth_address s = (Inl e, s') \<Longrightarrow>
     command_mode s' = command_mode s \<and> closed s' = closed s"
  by (auto simp: get_remote_connected_bluetooth_address_def split: prod.splits sum.splits
           dest!: ssr_stateD)

lemma returning_InlD: "returning f r = (Inl e, s') \<Longrightarrow> r = (Inl e, s')"
  by (auto simp: returning_def split: prod.splits sum.splits)

lemma perform_flags:
  assumes "perform op s = (Inl e, s')"
  shows "command_mode s' = command_mode s \<and> closed s' = closed s"
proof (cases op)
  case Close
  with assms show ?thesis by (auto dest!: returning_InlD close_flags)
next
  case (Serial_send_and_receive c x y m)
  with assms show ?thesis by (auto dest!: returning_InlD ssr_flagsD)
next
  case Enter_command_mode
  with assms show ?thesis by (auto dest!: returning_InlD enter_command_mode_flags)
next
  case Leave_command_mode
  with assms show ?thesis by (auto dest!: returning_InlD leave_command_mode_flags)
next
  case Get_chip_name
  with assms show ?thesis by (auto simp: get_chip_name_def dest!: returning_InlD ssr_flagsD)
next
  case Get_firmware_version
  with assms show ?thesis by (auto simp: get_firmware_version_def dest!: returning_InlD ssr_flagsD)
next
  case Get_local_bluetooth_address
  with assms show ?thesis
    by (auto simp: get_local_bluetooth_address_def dest!: returning_InlD ssr_flagsD)
next
  case Get_connection_status
  with assms show ?thesis by (auto dest!: returning_InlD get_connection_status_flags)
next
  case Get_remote_connected_bluetooth_address
  with assms show ?thesis
    by (auto dest!: returning_InlD get_remote_connected_bluetooth_address_flags)
qed (use assms in \<open>auto simp: reboot_def get_operation_mode_def set_master_mode_def
      set_slave_mode_def get_authentication_mode_def set_authentication_open_mode_def
      set_authentication_pin_mode_def get_service_profile_def set_service_profile_SPP_def
      set_service_profile_HID_def get_HID_deviceType_def set_HID_keyboard_def
      set_HID_gamepad_def set_HID_mouse_def set_HID_combo_def set_HID_joystick_def
      dest!: returning_InlD expect_exact_flags decode_with_flags\<close>)

subsection \<open>The three branches of enter_command_mode\<close>

lemma get_chip_name_text:
  assumes "answer (serial s) (sent (serial s) @ [CMD_GET_CHIP_NAME @ NEWLINE]) = Text n"
  shows "get_chip_name s =
     (Inr (strip n), s\<lparr>serial := (serial s)\<lparr>sent := sent (serial s) @ [CMD_GET_CHIP_NAME @ NEWLINE]\<rparr>\<rparr>)"
  using ssr_text[OF assms, of "[]" "[]" "''getting chip name''"]
    ssr_state[of CMD_GET_CHIP_NAME "[]" "[]" "''getting chip name''" s]
  by (simp add: get_chip_name_def prod_eq_iff)

lemma enter_command_mode_marker:
  assumes "answer (serial s) (sent (serial s) @ [CMD_ENTER_COMMAND_MODE]) = Text t"
    and "str_in ''CMD'' (strip t)"
  shows "enter_command_mode s =
     (Inr True, s\<lparr>serial := (serial s)\<lparr>sent := sent (serial s) @ [CMD_ENTER_COMMAND_MODE]\<rparr>,
                  command_mode := True\<rparr>)"
  using assms by (simp add: enter_command_mode_def SendReceive_def)

lemma enter_command_mode_probe_ok:
  assumes "answer (serial s) (sent (serial s) @ [CMD_ENTER_COMMAND_MODE]) = Text t"
    and "strip t = []"
    and "answer (serial s) (sent (serial s) @ [CMD_ENTER_COMMAND_MODE, CMD_GET_CHIP_NAME @ NEWLINE])
           = Text n"
    and "startswith (strip n) CHIP_NAME"
  shows "enter_command_mode s =
     (Inr True,
      s\<lparr>serial := (serial s)\<lparr>sent := sent (serial s)
                      @ [CMD_ENTER_COMMAND_MODE, CMD_GET_CHIP_NAME @ NEWLINE]\<rparr>,
        command_mode := True\<rparr>)"
proof -
  let ?s1 = "s\<lparr>serial := (serial s)\<lparr>sent := sent (serial s) @ [CMD_ENTER_COMMAND_MODE]\<rparr>\<rparr>"
  have "answer (serial ?s1) (sent (serial ?s1) @ [CMD_GET_CHIP_NAME @ NEWLINE]) = Text n"
    using assms(3) by simp
  from get_chip_name_text[OF this] show ?thesis
    using assms(1,2,4) by (simp add: enter_command_mode_def SendReceive_def)
qed

lemma enter_command_mode_other:
  assumes "answer (serial s) (sent (serial s) @ [CMD_ENTER_COMMAND_MODE]) = Text t"
    and "strip t \<noteq> []" and "\<not> str_in ''CMD'' (strip t)"
  shows "enter_command_mode s =
     (Inl (RN42Exception (''Incorrect response in entering command mode: '' @ strip t)),
      s\<lparr>serial := (serial s)\<lparr>sent := sent (serial s) @ [CMD_ENTER_COMMAND_MODE]\<rparr>\<rparr>)"
  using assms by (simp add: enter_command_mode_def SendReceive_def)

lemma enter_command_mode_sent:
  "sent (serial (snd (enter_command_mode s))) = sent (serial s) @ [CMD_ENTER_COMMAND_MODE]
   \<or> sent (serial (snd (enter_command_mode s)))
       = sent (serial s) @ [CMD_ENTER_COMMAND_MODE, CMD_GET_CHIP_NAME @ NEWLINE]"
  by (cases "enter_command_mode s")
     (auto simp: enter_command_mode_def SendReceive_def get_chip_name_def probe_handler_def Let_def
           split: if_splits prod.splits sum.splits reply.splits dest!: ssr_stateD)

subsection \<open>The decoding getters\<close>

lemma decode_with_text:
  assumes "answer (serial s) (sent (serial s) @ [command @ NEWLINE]) = Text t"
  shows "fst (decode_with D command msg s) = Inr (dict_get D (strip t))"
  using ssr_text[OF assms, of "[]" "[]" msg]
  by (cases "serial_send_and_receive command [] [] msg s") (auto simp: decode_with_def)

lemma operation_mode_table:
  "dict_get OPERATION_MODE ''Slav'' = Some ''SLAVE''
   \<and> dict_get OPERATION_MODE ''Mstr'' = Some ''MASTER''
   \<and> dict_get OPERATION_MODE ''Trig'' = Some ''TRIGGER''
   \<and> dict_get OPERATION_MODE ''Auto'' = Some ''AUTO''
   \<and> dict_get OPERATION_MODE ''DTR'' = Some ''DTR''
   \<and> dict_get OPERATION_MODE ''Any'' = Some ''ANY''
   \<and> dict_get OPERATION_MODE ''Pair'' = Some ''PAIR''
   \<and> (code \<notin> set [''Slav'', ''Mstr'', ''Trig'', ''Auto'', ''DTR'', ''Any'', ''Pair'']
        \<longrightarrow> dict_get OPERATION_MODE code = None)"
  by (simp add: dict_get_def OPERATION_MODE_def)

lemma authentication_mode_table:
  "dict_get AUTHENTICATION_MODE ''0'' = Some ''OPEN''
   \<and> dict_get AUTHENTICATION_MODE ''1'' = Some ''SSP_KEYBOARD''
   \<and> dict_get AUTHENTICATION_MODE ''2'' = Some ''SSP_JUST_WORK''
   \<and> dict_get AUTHENTICATION_MODE ''4'' = Some ''PIN_CODE''
   \<and> (code \<notin> set [''0'', ''1'', ''2'', ''4''] \<longrightarrow> dict_get AUTHENTICATION_MODE code = None)"
  by (simp add: dict_get_def AUTHENTICATION_MODE_def)

lemma service_profile_table:
  "dict_get SERVICE_PROFILE ''0'' = Some ''SPP''
   \<and> dict_get SERVICE_PROFILE ''1'' = Some ''DUN_DCE''
   \<and> dict_get SERVICE_PROFILE ''2'' = Some ''DUN_DTE''
   \<and> dict_get SERVICE_PROFILE ''3'' = Some ''MDM_SPP''
   \<and> dict_get SERVICE_PROFILE ''4'' = Some ''SPP_AND_DUN_DCE''
   \<and> dict_get SERVICE_PROFILE ''5'' = Some ''APL''
   \<and> dict_get SERVICE_PROFILE ''6'' = Some ''HID''
   \<and> (code \<notin> set [''0'', ''1'', ''2'', ''3'', ''4'', ''5'', ''6'']
        \<longrightarrow> dict_get SERVICE_PROFILE code = None)"
  by (simp add: dict_get_def SERVICE_PROFILE_def)

lemma hid_device_type_table:
  "dict_get HID_DEVICE_TYPE ''0200'' = Some ''KEYBOARD''
   \<and> dict_get HID_DEVICE_TYPE ''0210'' = Some ''GAMEPAD''
   \<and> dict_get HID_DEVICE_TYPE ''0220'' = Some ''MOUSE''
   \<and> dict_get HID_DEVICE_TYPE ''0230'' = Some ''COMBO''
   \<and> dict_get HID_DEVICE_TYPE ''0240'' = Some ''JOYSTICK''
   \<and> dict_get HID_DEVICE_TYPE ''0250'' = Some ''DIGITIZER''
   \<and> dict_get HID_DEVICE_TYPE ''0260'' = Some ''SENSOR''
   \<and> dict_get HID_DEVICE_TYPE ''0270'' = Some ''USECFG''
   \<and> (code \<notin> set [''0200'', ''0210'', ''0220'', ''0230'', ''0240'', ''0250'', ''0260'', ''0270'']
        \<longrightarrow> dict_get HID_DEVICE_TYPE code = None)"
  by (simp add: dict_get_def HID_DEVICE_TYPE_def)

section \<open>The claims\<close>

subsection \<open>C1: the error raised by a failed transaction\<close>

text \<open>
  Every \<open>Exception\<close> that reaches the handler of \<open>serial_send_and_receive\<close>, the mismatch
  raised inside the \<open>try\<close> block included, leaves as an \<open>RN42Exception\<close> whose message is
  the label alone.
\<close>

lemma serial_send_and_receive_failure_message:
  assumes "fst (serial_send_and_receive command expect expect_in msg s) = Inl e"
    and "isinstance_Exception e"
  shows "e = RN42Exception (''Failulre in '' @ msg)"
  using assms
  by (auto simp: serial_send_and_receive_def SendReceive_def split: sum.splits if_splits)

text \<open>
  Claim C1 says that a failed \<open>serial_send_and_receive\<close> raises one \<open>RN42Exception\<close> whose
  message carries the label and the raw result text. At the call
  \<open>serial_send_and_receive('SM,1', expect='AOK', msg='setting master mode')\<close> answered with
  \<open>ERR\<close> and a line end, the stripped result is \<open>ERR\<close>, the call raises
  \<open>RN42Exception('Failulre in setting master mode')\<close>, and that message does not contain
  \<open>ERR\<close>: the message built with the result is caught by the method's own handler.
\<close>

theorem serial_send_and_receive_mismatch_message:
  "fst (serial_send_and_receive ''SM,1'' ''AOK'' [] ''setting master mode''
          (session True [Text (''ERR'' @ NEWLINE)]))
     = Inl (RN42Exception ''Failulre in setting master mode'')
   \<and> strip (''ERR'' @ NEWLINE) = ''ERR''
   \<and> \<not> str_in ''ERR'' ''Failulre in setting master mode''"
  by (simp add: example_defs)

subsection \<open>C2: the chip-name probe with an unexpected name\<close>

text \<open>
  Claim C2 says that when the entry response is empty and the probe returns a name without
  the prefix \<open>RNBT\<close>, \<open>enter_command_mode\<close> fails with an error whose message names that
  chip name. With an empty entry response and the probe answered \<open>XYZ-1234\<close>, the call
  raises \<open>RN42Exception('Failure to get chip name in entering command mode.')\<close>, which does
  not contain \<open>XYZ-1234\<close>: the error naming the chip is raised inside the \<open>try\<close> block and
  replaced by its handler.
\<close>

theorem enter_command_mode_wrong_chip_name_message:
  "fst (enter_command_mode (session False [Text [], Text (''XYZ-1234'' @ NEWLINE)]))
     = Inl (RN42Exception ''Failure to get chip name in entering command mode.'')
   \<and> strip (''XYZ-1234'' @ NEWLINE) = ''XYZ-1234''
   \<and> \<not> startswith ''XYZ-1234'' CHIP_NAME
   \<and> \<not> str_in ''XYZ-1234'' ''Failure to get chip name in entering command mode.''"
  by (simp add: enter_command_mode_def get_chip_name_def probe_handler_def
      CMD_ENTER_COMMAND_MODE_def CMD_GET_CHIP_NAME_def CHIP_NAME_def example_defs)

subsection \<open>C3: close and a failing leave\<close>

text \<open>
  Claim C3 as stated (close proceeds whether or not Leave fails, so that one disconnect has
  happened and the closed flag is set after any close) fails: on a session in command mode
  whose exit command is answered \<open>ERR\<close>, \<open>close\<close> raises the error of
  \<open>leave_command_mode\<close>, the transport is not disconnected and the session is not marked
  closed.
\<close>

theorem close_stops_when_leave_fails_counterexample:
  "\<not> closed (session True [Text (''ERR'' @ NEWLINE)])
   \<and> fst (close (session True [Text (''ERR'' @ NEWLINE)]))
       = Inl (RN42Exception ''Failulre in leaving command mode'')
   \<and> disconnects (serial (snd (close (session True [Text (''ERR'' @ NEWLINE)])))) = 0
   \<and> \<not> closed (snd (close (session True [Text (''ERR'' @ NEWLINE)])))"
  by (simp add: close_def leave_command_mode_def CMD_LEAVE_COMMAND_MODE_def example_defs)

text \<open>
  Claim C3, amended: on a session not already closed, \<open>close\<close> first calls
  \<open>leave_command_mode\<close>. If that succeeds, \<open>close\<close> succeeds, the transport has been
  disconnected exactly once more and the closed flag is set. If it fails, \<open>close\<close> fails
  with the same error and the same state, the closed flag stays false and no disconnect has
  happened.
\<close>

theorem close_outcomes:
  assumes "\<not> closed s"
  shows "(\<exists>s1. leave_command_mode s = (Inr True, s1)
             \<and> fst (close s) = Inr ()
             \<and> closed (snd (close s))
             \<and> disconnects (serial (snd (close s))) = Suc (disconnects (serial s)))
       \<or> (\<exists>e s1. leave_command_mode s = (Inl e, s1)
             \<and> close s = (Inl e, s1)
             \<and> closed (snd (close s)) = False
             \<and> disconnects (serial (snd (close s))) = disconnects (serial s))"
proof (cases "leave_command_mode s")
  case (Pair r s1)
  note d = leave_command_mode_disconnects[OF Pair]
  show ?thesis
  proof (cases r)
    case (Inl e)
    with Pair have l: "leave_command_mode s = (Inl e, s1)" by simp
    then have c: "close s = (Inl e, s1)" using assms by (simp add: close_def)
    have "closed s1 = closed s" using leave_command_mode_flags[OF l] by simp
    then show ?thesis using l c d assms by simp
  next
    case (Inr b)
    with Pair have l: "leave_command_mode s = (Inr b, s1)" by simp
    then have b: "b = True"
      by (auto simp: leave_command_mode_def split: if_splits prod.splits sum.splits)
    have "close s = (Inr (), s1\<lparr>serial := Disconnect (serial s1), closed := True\<rparr>)"
      using l assms by (simp add: close_def)
    then show ?thesis using l b d by (simp add: Disconnect_def)
  qed
qed

theorem close_outcomes_witness:
  "\<not> closed (session False [])
   \<and> fst (close (session False [])) = Inr ()
   \<and> closed (snd (close (session False [])))
   \<and> disconnects (serial (snd (close (session False [])))) = 1"
  using close_outcomes[of "session False []"]
  by (simp add: session_def leave_command_mode_def)

subsection \<open>C4: the outcomes of enter_command_mode\<close>

text \<open>
  Claim C4: when the transport answers the entry token with text, the stripped response
  decides the outcome. If it contains \<open>CMD\<close>, the call returns \<open>True\<close> with the session in
  command mode. If it is empty and the chip-name probe returns a name that starts with
  \<open>RNBT\<close>, the call returns \<open>True\<close> with the session in command mode. If it is any other
  non-empty text, the call raises an \<open>RN42Exception\<close> whose message contains that response,
  nothing but the entry token has been sent, and the command-mode flag is as before.
\<close>

theorem enter_command_mode_outcomes:
  assumes "answer (serial s) (sent (serial s) @ [''$$$'']) = Text t"
  shows "(str_in ''CMD'' (strip t) \<longrightarrow>
            fst (enter_command_mode s) = Inr True \<and> command_mode (snd (enter_command_mode s)))
       \<and> (strip t = []
            \<and> answer (serial s) (sent (serial s) @ [''$$$'', ''GN'' @ [CHR 0x0D, CHR 0x0A]]) = Text n
            \<and> startswith (strip n) ''RNBT'' \<longrightarrow>
            fst (enter_command_mode s) = Inr True \<and> command_mode (snd (enter_command_mode s)))
       \<and> (strip t \<noteq> [] \<and> \<not> str_in ''CMD'' (strip t) \<longrightarrow>
            (\<exists>m. fst (enter_command_mode s) = Inl (RN42Exception m) \<and> str_in (strip t) m)
            \<and> sent (serial (snd (enter_command_mode s))) = sent (serial s) @ [''$$$'']
            \<and> command_mode (snd (enter_command_mode s)) = command_mode s)"
proof (intro conjI impI)
  assume "str_in ''CMD'' (strip t)"
  with assms have "enter_command_mode s =
     (Inr True, s\<lparr>serial := (serial s)\<lparr>sent := sent (serial s) @ [CMD_ENTER_COMMAND_MODE]\<rparr>,
                  command_mode := True\<rparr>)"
    by (intro enter_command_mode_marker) (simp_all add: CMD_ENTER_COMMAND_MODE_def)
  then show "fst (enter_command_mode s) = Inr True" "command_mode (snd (enter_command_mode s))"
    by simp_all
next
  assume a: "strip t = []
     \<and> answer (serial s) (sent (serial s) @ [''$$$'', ''GN'' @ [CHR 0x0D, CHR 0x0A]]) = Text n
     \<and> startswith (strip n) ''RNBT''"
  with assms have "enter_command_mode s =
     (Inr True,
      s\<lparr>serial := (serial s)\<lparr>sent := sent (serial s)
                      @ [CMD_ENTER_COMMAND_MODE, CMD_GET_CHIP_NAME @ NEWLINE]\<rparr>,
        command_mode := True\<rparr>)"
    by (intro enter_command_mode_probe_ok[where t=t and n=n])
       (simp_all add: CMD_ENTER_COMMAND_MODE_def CMD_GET_CHIP_NAME_def NEWLINE_def CHIP_NAME_def)
  then show "fst (enter_command_mode s) = Inr True" "command_mode (snd (enter_command_mode s))"
    by simp_all
next
  assume a: "strip t \<noteq> [] \<and> \<not> str_in ''CMD'' (strip t)"
  with assms have e: "enter_command_mode s =
     (Inl (RN42Exception (''Incorrect response in entering command mode: '' @ strip t)),
      s\<lparr>serial := (serial s)\<lparr>sent := sent (serial s) @ [CMD_ENTER_COMMAND_MODE]\<rparr>\<rparr>)"
    by (intro enter_command_mode_other) (simp_all add: CMD_ENTER_COMMAND_MODE_def)
  have "str_in (strip t) (''Incorrect response in entering command mode: '' @ strip t @ [])"
    by (rule str_in_append)
  then show "\<exists>m. fst (enter_command_mode s) = Inl (RN42Exception m) \<and> str_in (strip t) m"
    using e by simp
  show "sent (serial (snd (enter_command_mode s))) = sent (serial s) @ [''$$$'']"
    using e by (simp add: CMD_ENTER_COMMAND_MODE_def)
  show "command_mode (snd (enter_command_mode s)) = command_mode s"
    using e by simp
qed

theorem enter_command_mode_outcomes_witness:
  "fst (enter_command_mode (session False [Text (''xxCMD'' @ NEWLINE)])) = Inr True
   \<and> command_mode (snd (enter_command_mode (session False [Text (''xxCMD'' @ NEWLINE)])))
   \<and> fst (enter_command_mode (session False [Text [], Text (''RNBT-A955'' @ NEWLINE)])) = Inr True
   \<and> command_mode (snd (enter_command_mode (session False [Text [], Text (''RNBT-A955'' @ NEWLINE)])))
   \<and> (\<exists>m. fst (enter_command_mode (session False [Text (''ERR'' @ NEWLINE)])) = Inl (RN42Exception m)
          \<and> str_in ''ERR'' m)
   \<and> sent (serial (snd (enter_command_mode (session False [Text (''ERR'' @ NEWLINE)])))) = [''$$$'']
   \<and> \<not> command_mode (snd (enter_command_mode (session False [Text (''ERR'' @ NEWLINE)])))"
  using
    enter_command_mode_outcomes[of "session False [Text (''xxCMD'' @ NEWLINE)]"
      "''xxCMD'' @ NEWLINE" "[]"]
    enter_command_mode_outcomes[of "session False [Text [], Text (''RNBT-A955'' @ NEWLINE)]"
      "[]" "''RNBT-A955'' @ NEWLINE"]
    enter_command_mode_outcomes[of "session False [Text (''ERR'' @ NEWLINE)]"
      "''ERR'' @ NEWLINE" "[]"]
  by (simp add: session_def scripted_def strip_def isspace_def NEWLINE_def startswith_def)

subsection \<open>C5: what is handed to the transport\<close>

text \<open>
  Claim C5: a transaction hands the transport the command text followed by carriage return
  and line feed, whatever the command; \<open>enter_command_mode\<close> hands it the bare entry token
  \<open>$$$\<close>, followed at most by the chip-name probe \<open>GN\<close> with its line end.
\<close>

theorem transmitted_bytes:
  "sent (serial (snd (serial_send_and_receive command expect expect_in msg s)))
     = sent (serial s) @ [command @ [CHR 0x0D, CHR 0x0A]]
   \<and> (sent (serial (snd (enter_command_mode s))) = sent (serial s) @ [''$$$'']
      \<or> sent (serial (snd (enter_command_mode s)))
          = sent (serial s) @ [''$$$'', ''GN'' @ [CHR 0x0D, CHR 0x0A]])"
  using enter_command_mode_sent[of s]
  by (simp add: ssr_state NEWLINE_def CMD_ENTER_COMMAND_MODE_def CMD_GET_CHIP_NAME_def)

theorem transmitted_bytes_witness:
  "sent (serial (snd (serial_send_and_receive ''SM,1'' ''AOK'' [] ''setting master mode''
           (session True [Text (''AOK'' @ NEWLINE)]))))
     = [[CHR ''S'', CHR ''M'', CHR '','', CHR ''1'', CHR 0x0D, CHR 0x0A]]
   \<and> sent (serial (snd (enter_command_mode (session False [Text (''CMD'' @ NEWLINE)]))))
     = [''$$$'']"
proof -
  have e: "sent (serial (snd (enter_command_mode (session False [Text (''CMD'' @ NEWLINE)]))))
     = [''$$$'']"
    by (simp add: enter_command_mode_def CMD_ENTER_COMMAND_MODE_def example_defs)
  show ?thesis
    using transmitted_bytes[of "''SM,1''" "''AOK''" "[]" "''setting master mode''"
        "session True [Text (''AOK'' @ NEWLINE)]"] e
    by (simp add: session_def)
qed

subsection \<open>C6: a failed call leaves the session flags alone\<close>

text \<open>
  Claim C6: whatever public method is called, if the call raises, the flags
  \<open>_command_mode\<close> and \<open>_closed\<close> are what they were before the call. In particular, when
  the session is in command mode and the exit command is answered with text whose stripped
  form is not \<open>END\<close>, \<open>leave_command_mode\<close> raises and the session is still in command
  mode.
\<close>

theorem failure_keeps_session_flags:
  "(perform op s = (Inl e, s') \<longrightarrow> command_mode s' = command_mode s \<and> closed s' = closed s)
   \<and> (command_mode s
        \<and> answer (serial s) (sent (serial s) @ [''---'' @ [CHR 0x0D, CHR 0x0A]]) = Text t
        \<and> strip t \<noteq> ''END'' \<longrightarrow>
        fst (leave_command_mode s) = Inl (RN42Exception ''Failulre in leaving command mode'')
        \<and> command_mode (snd (leave_command_mode s)))"
proof (intro conjI impI)
  assume "perform op s = (Inl e, s')"
  then show "command_mode s' = command_mode s" "closed s' = closed s"
    using perform_flags by blast+
next
  assume a: "command_mode s
        \<and> answer (serial s) (sent (serial s) @ [''---'' @ [CHR 0x0D, CHR 0x0A]]) = Text t
        \<and> strip t \<noteq> ''END''"
  then have t: "answer (serial s) (sent (serial s) @ [CMD_LEAVE_COMMAND_MODE @ NEWLINE]) = Text t"
    by (simp add: CMD_LEAVE_COMMAND_MODE_def NEWLINE_def)
  have f: "fst (serial_send_and_receive CMD_LEAVE_COMMAND_MODE ''END'' [] ''leaving command mode'' s)
      = Inl (RN42Exception ''Failulre in leaving command mode'')"
    using ssr_text[OF t, of "''END''" "[]" "''leaving command mode''"] a by auto
  have l: "leave_command_mode s =
      (Inl (RN42Exception ''Failulre in leaving command mode''),
       snd (serial_send_and_receive CMD_LEAVE_COMMAND_MODE ''END'' [] ''leaving command mode'' s))"
    using a f
    by (cases "serial_send_and_receive CMD_LEAVE_COMMAND_MODE ''END'' [] ''leaving command mode'' s")
       (auto simp: leave_command_mode_def)
  show "fst (leave_command_mode s) = Inl (RN42Exception ''Failulre in leaving command mode'')"
    using l by simp
  show "command_mode (snd (leave_command_mode s))"
    using l a by (simp add: ssr_state)
qed

theorem failure_keeps_session_flags_witness:
  "fst (perform Set_master_mode (session True [Text (''ERR'' @ NEWLINE)]))
     = Inl (RN42Exception ''Failulre in setting master mode'')
   \<and> command_mode (snd (perform Set_master_mode (session True [Text (''ERR'' @ NEWLINE)])))
   \<and> \<not> closed (snd (perform Set_master_mode (session True [Text (''ERR'' @ NEWLINE)])))
   \<and> strip (''ERR'' @ NEWLINE) \<noteq> ''END''
   \<and> fst (leave_command_mode (session True [Text (''ERR'' @ NEWLINE)]))
       = Inl (RN42Exception ''Failulre in leaving command mode'')
   \<and> command_mode (snd (leave_command_mode (session True [Text (''ERR'' @ NEWLINE)])))"
proof -
  let ?s = "session True [Text (''ERR'' @ NEWLINE)]"
  let ?e = "RN42Exception ''Failulre in setting master mode''"
  have pf: "fst (perform Set_master_mode ?s) = Inl ?e"
    by (simp add: returning_def set_master_mode_def expect_exact_def CMD_SET_MASTER_MODE_def
        AOK_def example_defs)
  then have p: "perform Set_master_mode ?s = (Inl ?e, snd (perform Set_master_mode ?s))"
    by (simp add: prod_eq_iff)
  have h: "command_mode ?s
      \<and> answer (serial ?s) (sent (serial ?s) @ [''---'' @ [CHR 0x0D, CHR 0x0A]])
          = Text (''ERR'' @ NEWLINE)
      \<and> strip (''ERR'' @ NEWLINE) \<noteq> ''END''"
    by (simp add: example_defs)
  note k = failure_keeps_session_flags[of Set_master_mode ?s ?e
        "snd (perform Set_master_mode ?s)" "''ERR'' @ NEWLINE"]
  from k p have a: "command_mode (snd (perform Set_master_mode ?s)) = command_mode ?s
      \<and> closed (snd (perform Set_master_mode ?s)) = closed ?s"
    by blast
  from k h have b: "fst (leave_command_mode ?s) = Inl (RN42Exception ''Failulre in leaving command mode'')
      \<and> command_mode (snd (leave_command_mode ?s))"
    by blast
  have c: "command_mode ?s" "\<not> closed ?s" by (simp_all add: session_def)
  show ?thesis using pf a b c h by blast
qed

subsection \<open>C7: closing twice\<close>

text \<open>
  Claim C7 as stated (two calls of close make exactly one disconnect and the second raises
  nothing) fails when the first call fails: on a session in command mode whose exit command
  is answered \<open>ERR\<close> both times, the second \<open>close\<close> raises again and the transport has
  not been disconnected at all.
\<close>

theorem close_twice_after_failed_leave_counterexample:
  "\<not> closed (session True [Text (''ERR'' @ NEWLINE), Text (''ERR'' @ NEWLINE)])
   \<and> fst (close (snd (close (session True [Text (''ERR'' @ NEWLINE), Text (''ERR'' @ NEWLINE)]))))
       = Inl (RN42Exception ''Failulre in leaving command mode'')
   \<and> disconnects (serial (snd (close (snd (close
         (session True [Text (''ERR'' @ NEWLINE), Text (''ERR'' @ NEWLINE)])))))) = 0"
  by (simp add: close_def leave_command_mode_def CMD_LEAVE_COMMAND_MODE_def example_defs)

text \<open>
  Claim C7, amended: when the first \<open>close\<close> on a session not already closed returns
  without raising, it has disconnected the transport exactly once, and a second \<open>close\<close>
  raises nothing and changes nothing: no further disconnect and nothing sent.
\<close>

theorem second_close_is_silent:
  assumes "\<not> closed s" and "close s = (Inr (), s1)"
  shows "close s1 = (Inr (), s1)
       \<and> disconnects (serial s1) = Suc (disconnects (serial s))
       \<and> disconnects (serial (snd (close s1))) = Suc (disconnects (serial s))
       \<and> sent (serial (snd (close s1))) = sent (serial s1)"
proof -
  obtain r s' where l: "leave_command_mode s = (r, s')" by (cases "leave_command_mode s")
  with assms obtain b where r: "r = Inr b"
    by (cases r) (auto simp: close_def)
  with l assms have s1: "s1 = s'\<lparr>serial := Disconnect (serial s'), closed := True\<rparr>"
    by (simp add: close_def)
  note d = leave_command_mode_disconnects[OF l]
  have c: "close s1 = (Inr (), s1)" using s1 by (simp add: close_def)
  show ?thesis using c s1 d by (simp add: Disconnect_def)
qed

theorem second_close_is_silent_witness:
  "\<not> closed (session True [Text (''END'' @ NEWLINE)])
   \<and> fst (close (session True [Text (''END'' @ NEWLINE)])) = Inr ()
   \<and> close (snd (close (session True [Text (''END'' @ NEWLINE)])))
       = (Inr (), snd (close (session True [Text (''END'' @ NEWLINE)])))
   \<and> disconnects (serial (snd (close (snd (close (session True [Text (''END'' @ NEWLINE)])))))) = 1"
proof -
  let ?s = "session True [Text (''END'' @ NEWLINE)]"
  have n: "\<not> closed ?s" by (simp add: session_def)
  have f: "fst (close ?s) = Inr ()"
    by (simp add: close_def leave_command_mode_def CMD_LEAVE_COMMAND_MODE_def example_defs)
  then have c: "close ?s = (Inr (), snd (close ?s))" by (simp add: prod_eq_iff)
  have z: "disconnects (serial ?s) = 0" by (simp add: session_def)
  show ?thesis using second_close_is_silent[OF n c] n f z by simp
qed

subsection \<open>C8: leaving outside command mode\<close>

text \<open>
  Claim C8: outside command mode, \<open>leave_command_mode\<close> returns \<open>True\<close> and the object,
  its transport log included, is unchanged: no transaction is issued.
\<close>

theorem leave_command_mode_outside_command_mode:
  "\<not> command_mode s \<Longrightarrow> leave_command_mode s = (Inr True, s)"
  by (simp add: leave_command_mode_def)

theorem leave_command_mode_outside_command_mode_witness:
  "\<not> command_mode (session False [])
   \<and> leave_command_mode (session False []) = (Inr True, session False [])
   \<and> sent (serial (snd (leave_command_mode (session False [])))) = []"
proof -
  have n: "\<not> command_mode (session False [])" by (simp add: session_def)
  show ?thesis using leave_command_mode_outside_command_mode[OF n] n by (simp add: session_def)
qed

subsection \<open>C9: the decoding tables and their getters\<close>

text \<open>
  Claim C9: each of the four dictionaries maps the documented codes to the documented
  labels and every other code to nothing; and a decoding getter whose transaction is
  answered with text returns the dictionary's entry for the stripped text, which is \<open>None\<close>
  for a code the dictionary does not hold, without raising.
\<close>

theorem decoding_tables:
  "(dict_get OPERATION_MODE ''Slav'' = Some ''SLAVE''
    \<and> dict_get OPERATION_MODE ''Mstr'' = Some ''MASTER''
    \<and> dict_get OPERATION_MODE ''Trig'' = Some ''TRIGGER''
    \<and> dict_get OPERATION_MODE ''Auto'' = Some ''AUTO''
    \<and> dict_get OPERATION_MODE ''DTR'' = Some ''DTR''
    \<and> dict_get OPERATION_MODE ''Any'' = Some ''ANY''
    \<and> dict_get OPERATION_MODE ''Pair'' = Some ''PAIR''
    \<and> (code \<notin> set [''Slav'', ''Mstr'', ''Trig'', ''Auto'', ''DTR'', ''Any'', ''Pair'']
         \<longrightarrow> dict_get OPERATION_MODE code = None))
   \<and> (dict_get AUTHENTICATION_MODE ''0'' = Some ''OPEN''
    \<and> dict_get AUTHENTICATION_MODE ''1'' = Some ''SSP_KEYBOARD''
    \<and> dict_get AUTHENTICATION_MODE ''2'' = Some ''SSP_JUST_WORK''
    \<and> dict_get AUTHENTICATION_MODE ''4'' = Some ''PIN_CODE''
    \<and> (code \<notin> set [''0'', ''1'', ''2'', ''4''] \<longrightarrow> dict_get AUTHENTICATION_MODE code = None))
   \<and> (dict_get SERVICE_PROFILE ''0'' = Some ''SPP''
    \<and> dict_get SERVICE_PROFILE ''1'' = Some ''DUN_DCE''
    \<and> dict_get SERVICE_PROFILE ''2'' = Some ''DUN_DTE''
    \<and> dict_get SERVICE_PROFILE ''3'' = Some ''MDM_SPP''
    \<and> dict_get SERVICE_PROFILE ''4'' = Some ''SPP_AND_DUN_DCE''
    \<and> dict_get SERVICE_PROFILE ''5'' = Some ''APL''
    \<and> dict_get SERVICE_PROFILE ''6'' = Some ''HID''
    \<and> (code \<notin> set [''0'', ''1'', ''2'', ''3'', ''4'', ''5'', ''6'']
         \<longrightarrow> dict_get SERVICE_PROFILE code = None))
   \<and> (dict_get HID_DEVICE_TYPE ''0200'' = Some ''KEYBOARD''
    \<and> dict_get HID_DEVICE_TYPE ''0210'' = Some ''GAMEPAD''
    \<and> dict_get HID_DEVICE_TYPE ''0220'' = Some ''MOUSE''
    \<and> dict_get HID_DEVICE_TYPE ''0230'' = Some ''COMBO''
    \<and> dict_get HID_DEVICE_TYPE ''0240'' = Some ''JOYSTICK''
    \<and> dict_get HID_DEVICE_TYPE ''0250'' = Some ''DIGITIZER''
    \<and> dict_get HID_DEVICE_TYPE ''0260'' = Some ''SENSOR''
    \<and> dict_get HID_DEVICE_TYPE ''0270'' = Some ''USECFG''
    \<and> (code \<notin> set [''0200'', ''0210'', ''0220'', ''0230'', ''0240'', ''0250'', ''0260'', ''0270'']
         \<longrightarrow> dict_get HID_DEVICE_TYPE code = None))
   \<and> (answer (serial s) (sent (serial s) @ [''GM'' @ [CHR 0x0D, CHR 0x0A]]) = Text t \<longrightarrow>
        fst (get_operation_mode s) = Inr (dict_get OPERATION_MODE (strip t)))
   \<and> (answer (serial s) (sent (serial s) @ [''GA'' @ [CHR 0x0D, CHR 0x0A]]) = Text t \<longrightarrow>
        fst (get_authentication_mode s) = Inr (dict_get AUTHENTICATION_MODE (strip t)))
   \<and> (answer (serial s) (sent (serial s) @ [''G~'' @ [CHR 0x0D, CHR 0x0A]]) = Text t \<longrightarrow>
        fst (get_service_profile s) = Inr (dict_get SERVICE_PROFILE (strip t)))
   \<and> (answer (serial s) (sent (serial s) @ [''GH'' @ [CHR 0x0D, CHR 0x0A]]) = Text t \<longrightarrow>
        fst (get_HID_deviceType s) = Inr (dict_get HID_DEVICE_TYPE (strip t)))"
proof (intro conjI impI)
  assume "answer (serial s) (sent (serial s) @ [''GM'' @ [CHR 0x0D, CHR 0x0A]]) = Text t"
  then have "answer (serial s) (sent (serial s) @ [CMD_GET_OPERATION_MODE @ NEWLINE]) = Text t"
    by (simp add: CMD_GET_OPERATION_MODE_def NEWLINE_def)
  then show "fst (get_operation_mode s) = Inr (dict_get OPERATION_MODE (strip t))"
    unfolding get_operation_mode_def by (rule decode_with_text)
next
  assume "answer (serial s) (sent (serial s) @ [''GA'' @ [CHR 0x0D, CHR 0x0A]]) = Text t"
  then have "answer (serial s) (sent (serial s) @ [CMD_GET_AUTHENTICATION_MODE @ NEWLINE]) = Text t"
    by (simp add: CMD_GET_AUTHENTICATION_MODE_def NEWLINE_def)
  then show "fst (get_authentication_mode s) = Inr (dict_get AUTHENTICATION_MODE (strip t))"
    unfolding get_authentication_mode_def by (rule decode_with_text)
next
  assume "answer (serial s) (sent (serial s) @ [''G~'' @ [CHR 0x0D, CHR 0x0A]]) = Text t"
  then have "answer (serial s) (sent (serial s) @ [CMD_GET_SERVICE_PROFILE @ NEWLINE]) = Text t"
    by (simp add: CMD_GET_SERVICE_PROFILE_def NEWLINE_def)
  then show "fst (get_service_profile s) = Inr (dict_get SERVICE_PROFILE (strip t))"
    unfolding get_service_profile_def by (rule decode_with_text)
next
  assume "answer (serial s) (sent (serial s) @ [''GH'' @ [CHR 0x0D, CHR 0x0A]]) = Text t"
  then have "answer (serial s) (sent (serial s) @ [CMD_GET_HID @ NEWLINE]) = Text t"
    by (simp add: CMD_GET_HID_def NEWLINE_def)
  then show "fst (get_HID_deviceType s) = Inr (dict_get HID_DEVICE_TYPE (strip t))"
    unfolding get_HID_deviceType_def by (rule decode_with_text)
qed (use operation_mode_table[of code] authentication_mode_table[of code]
        service_profile_table[of code] hid_device_type_table[of code] in blast)+

theorem decoding_tables_witness:
  "dict_get OPERATION_MODE ''Xyz'' = None
   \<and> dict_get AUTHENTICATION_MODE ''Xyz'' = None
   \<and> dict_get SERVICE_PROFILE ''Xyz'' = None
   \<and> dict_get HID_DEVICE_TYPE ''Xyz'' = None
   \<and> fst (get_operation_mode (session True [Text (''Xyz'' @ NEWLINE)])) = Inr None
   \<and> fst (get_authentication_mode (session True [Text (''Xyz'' @ NEWLINE)])) = Inr None
   \<and> fst (get_service_profile (session True [Text (''Xyz'' @ NEWLINE)])) = Inr None
   \<and> fst (get_HID_deviceType (session True [Text (''Xyz'' @ NEWLINE)])) = Inr None"
proof -
  let ?s = "session True [Text (''Xyz'' @ NEWLINE)]"
  have a: "answer (serial ?s) (sent (serial ?s) @ [c]) = Text (''Xyz'' @ NEWLINE)" for c
    by (simp add: session_def scripted_def)
  have t: "strip (''Xyz'' @ NEWLINE) = ''Xyz''"
    by (simp add: strip_def isspace_def NEWLINE_def)
  have m: "''Xyz'' \<notin> set [''Slav'', ''Mstr'', ''Trig'', ''Auto'', ''DTR'', ''Any'', ''Pair'']"
    "''Xyz'' \<notin> set [''0'', ''1'', ''2'', ''4'']"
    "''Xyz'' \<notin> set [''0'', ''1'', ''2'', ''3'', ''4'', ''5'', ''6'']"
    "''Xyz'' \<notin> set [''0200'', ''0210'', ''0220'', ''0230'', ''0240'', ''0250'', ''0260'', ''0270'']"
    by simp_all
  show ?thesis
    using decoding_tables[of "''Xyz''" ?s "''Xyz'' @ NEWLINE"] a t m by metis
qed

subsection \<open>C10: exceptions of the entry exchange\<close>

text \<open>
  Claim C10: when the transport raises during the entry-token exchange of
  \<open>enter_command_mode\<close>, a \<open>SerialTimeoutException\<close> is turned into an \<open>RN42Exception\<close>,
  any other exception leaves the call as it is, and in both cases the flags of the session
  are unchanged and nothing but the entry token has been sent.
\<close>

theorem enter_command_mode_transport_exception:
  assumes "answer (serial s) (sent (serial s) @ [''$$$'']) = Raise e"
  shows "(e = SerialTimeoutException \<longrightarrow>
            fst (enter_command_mode s) = Inl (RN42Exception ''Failure in entering command mode.''))
       \<and> (e \<noteq> SerialTimeoutException \<longrightarrow> fst (enter_command_mode s) = Inl e)
       \<and> command_mode (snd (enter_command_mode s)) = command_mode s
       \<and> closed (snd (enter_command_mode s)) = closed s
       \<and> sent (serial (snd (enter_command_mode s))) = sent (serial s) @ [''$$$'']"
  using assms by (simp add: enter_command_mode_def SendReceive_def CMD_ENTER_COMMAND_MODE_def)

theorem enter_command_mode_transport_exception_witness:
  "fst (enter_command_mode (session False [Raise SerialTimeoutException]))
     = Inl (RN42Exception ''Failure in entering command mode.'')
   \<and> fst (enter_command_mode (session False [Raise (OtherException ''SerialException'')]))
     = Inl (OtherException ''SerialException'')
   \<and> \<not> command_mode (snd (enter_command_mode
          (session False [Raise (OtherException ''SerialException'')])))
   \<and> \<not> closed (snd (enter_command_mode
          (session False [Raise (OtherException ''SerialException'')])))"
  using
    enter_command_mode_transport_exception[of "session False [Raise SerialTimeoutException]"
      SerialTimeoutException]
    enter_command_mode_transport_exception[of
      "session False [Raise (OtherException ''SerialException'')]"
      "OtherException ''SerialException''"]
  by (simp add: session_def scripted_def)

end
